theory Spec2Isabelle
  imports Complex_Main
begin

section \<open>Python values, exceptions and sequences\<close>

text \<open>
  The module \<^verbatim>\<open>bj_components.py\<close> defines the classes \<^verbatim>\<open>Deck\<close>, \<^verbatim>\<open>Dealer\<close> and
  \<^verbatim>\<open>Player\<close>. Every exception the modelled methods can raise is a value of \<open>error\<close>;
  a call that may raise returns \<open>error + 'a\<close>, with \<open>Inl\<close> for the exception.
  The two \<^verbatim>\<open>ValueError\<close>s and the \<^verbatim>\<open>TypeError\<close> the source raises itself carry
  no data the model needs, so the constructors have no argument.
\<close>

datatype error = NameError | TypeError | ValueError | IndexError | AttributeError

definition bind_res :: "error + 'a \<Rightarrow> ('a \<Rightarrow> error + 'b) \<Rightarrow> error + 'b" where
  "bind_res m f = (case m of Inl e \<Rightarrow> Inl e | Inr x \<Rightarrow> f x)"

text \<open>
  A card is the string \<^verbatim>\<open>f"{val}{suit}"\<close> built in \<^verbatim>\<open>Deck.one_deck\<close>, and a hand is a
  list of cards. \<^verbatim>\<open>xs[i]\<close> with a non-negative literal index raises \<^verbatim>\<open>IndexError\<close> out
  of range; on a string it yields the string of the one character at that place.
\<close>

type_synonym card = string

definition py_item :: "'a list \<Rightarrow> nat \<Rightarrow> error + 'a" where
  "py_item xs i = (if i < length xs then Inr (xs ! i) else Inl IndexError)"

definition str_item :: "string \<Rightarrow> nat \<Rightarrow> error + string" where
  "str_item s i = (if i < length s then Inr [s ! i] else Inl IndexError)"

text \<open>
  \<^verbatim>\<open>int(s)\<close> on a string of one character: the ten decimal digits convert, every other
  character of the model's alphabet raises \<^verbatim>\<open>ValueError\<close>.
\<close>

definition digit_values :: "(char \<times> int) list" where
  "digit_values =
     [(CHR ''0'', 0), (CHR ''1'', 1), (CHR ''2'', 2), (CHR ''3'', 3), (CHR ''4'', 4),
      (CHR ''5'', 5), (CHR ''6'', 6), (CHR ''7'', 7), (CHR ''8'', 8), (CHR ''9'', 9)]"

definition py_int_str :: "string \<Rightarrow> error + int" where
  "py_int_str s =
     (case s of
        [c] \<Rightarrow> (case map_of digit_values c of None \<Rightarrow> Inl ValueError | Some v \<Rightarrow> Inr v)
      | _ \<Rightarrow> Inl ValueError)"

text \<open>
  \<^verbatim>\<open>str(n)\<close> for the integers of \<^verbatim>\<open>range(2, 11)\<close>, as the f-string formats them.
\<close>

definition digit_chars :: "char list" where
  "digit_chars = ''0123456789''"

fun py_str_nat :: "nat \<Rightarrow> string" where
  "py_str_nat n =
     (if n < 10 then [digit_chars ! n] else py_str_nat (n div 10) @ [digit_chars ! (n mod 10)])"

declare py_str_nat.simps [simp del]

text \<open>
  A list comprehension whose element expression may raise: the elements are evaluated
  from left to right and the first exception ends the comprehension.
\<close>

fun map_res :: "('a \<Rightarrow> error + 'b) \<Rightarrow> 'a list \<Rightarrow> error + 'b list" where
  "map_res f [] = Inr []"
| "map_res f (x # xs) =
     (case f x of
        Inl e \<Rightarrow> Inl e
      | Inr y \<Rightarrow> (case map_res f xs of Inl e \<Rightarrow> Inl e | Inr ys \<Rightarrow> Inr (y # ys)))"

section \<open>The deck\<close>

text \<open>
  \<^verbatim>\<open>one_deck = [f"{val}{suit}" for suit in ['D', 'H', 'C', 'S']
                for val in list(range(2,11)) + ['J', 'Q', 'K', 'A']]\<close>
\<close>

definition deck_suits :: "string list" where
  "deck_suits = [''D'', ''H'', ''C'', ''S'']"

definition deck_vals :: "string list" where
  "deck_vals = map py_str_nat [2..<11] @ [''J'', ''Q'', ''K'', ''A'']"

definition one_deck :: "card list" where
  "one_deck = concat (map (\<lambda>suit. map (\<lambda>val. val @ suit) deck_vals) deck_suits)"

section \<open>Hand evaluation\<close>

text \<open>
  \<^verbatim>\<open>Dealer.check_hand_total\<close>. The value of a card is read from \<^verbatim>\<open>card[0]\<close>:
  \<^verbatim>\<open>int(card[0]) if card[0] not in ['A', 'J', 'Q', 'K'] else 10 if card[0] in ['J', 'Q', 'K'] else 1\<close>.
\<close>

definition card_val :: "card \<Rightarrow> error + int" where
  "card_val crd =
     bind_res (str_item crd 0) (\<lambda>c.
       if c \<notin> set [''A'', ''J'', ''Q'', ''K''] then py_int_str c
       else if c \<in> set [''J'', ''Q'', ''K''] then Inr 10
       else Inr 1)"

definition check_hand_total :: "card list \<Rightarrow> error + int" where
  "check_hand_total hand =
     bind_res (map_res card_val hand) (\<lambda>hand_vals.
       let aces = filter (\<lambda>val. val = 1) hand_vals;
           hand_sum = sum_list hand_vals
       in if aces \<noteq> [] then
            (let sum_with_eleven_ace = hand_sum + 10
             in if sum_with_eleven_ace \<le> 21 then Inr sum_with_eleven_ace else Inr hand_sum)
          else Inr hand_sum)"

text \<open>
  \<^verbatim>\<open>Dealer.check_blackjack\<close>, with the short-circuit evaluation of \<^verbatim>\<open>and\<close> and
  \<^verbatim>\<open>or\<close> written out:
  \<^verbatim>\<open>(hand[0][0] == 'A' and hand[1][0] in ['10', 'J', 'Q', 'K']) or
     (hand[1][0] == 'A' and hand[0][0] in ['10', 'J', 'Q', 'K'])\<close>.
\<close>

definition hand_item0 :: "card list \<Rightarrow> nat \<Rightarrow> error + string" where
  "hand_item0 hand i = bind_res (py_item hand i) (\<lambda>crd. str_item crd 0)"

definition ten_valued :: "string list" where
  "ten_valued = [''10'', ''J'', ''Q'', ''K'']"

definition check_blackjack :: "card list \<Rightarrow> error + bool" where
  "check_blackjack hand =
     bind_res
       (bind_res (hand_item0 hand 0) (\<lambda>a.
          if a = ''A'' then bind_res (hand_item0 hand 1) (\<lambda>b. Inr (b \<in> set ten_valued))
          else Inr False))
       (\<lambda>first_way.
          if first_way then Inr True
          else
            bind_res (hand_item0 hand 1) (\<lambda>b.
              if b = ''A'' then bind_res (hand_item0 hand 0) (\<lambda>a. Inr (a \<in> set ten_valued))
              else Inr False))"

section \<open>Names a method body looks up in the module\<close>

text \<open>
  A bare name in a method body that is neither a local variable nor a builtin is looked
  up, when the line runs, in the global namespace of the module; the body of the
  enclosing class is not a scope for it. \<^verbatim>\<open>Deck.__init__\<close> reads the bare name
  \<^verbatim>\<open>one_deck\<close> and \<^verbatim>\<open>Player.place_initial_bet\<close> calls the bare name
  \<^verbatim>\<open>check_bet_allowed\<close>. The model takes what the name is bound to as an argument
  (\<open>None\<close>: unbound, the lookup raises \<^verbatim>\<open>NameError\<close>). The module itself binds
  only \<^verbatim>\<open>np\<close>, \<^verbatim>\<open>pd\<close>, \<^verbatim>\<open>Deck\<close>, \<^verbatim>\<open>Dealer\<close> and \<^verbatim>\<open>Player\<close>, so in the program as it is
  written both names are unbound: \<open>Deck_init\<close> and \<open>place_initial_bet\<close> below are the
  instances at \<open>None\<close>.
\<close>

definition lookup_global :: "'a option \<Rightarrow> error + 'a" where
  "lookup_global binding = (case binding of None \<Rightarrow> Inl NameError | Some v \<Rightarrow> Inr v)"

section \<open>Deck: construction and shuffle\<close>

text \<open>
  The arguments of the constructor are arbitrary Python values; \<^verbatim>\<open>bool\<close> is a subclass
  of \<^verbatim>\<open>int\<close>, so \<^verbatim>\<open>isinstance(True, int)\<close> holds. A float is modelled by the real number
  it denotes (no NaN, no infinities, no rounding).
\<close>

datatype pyval = PyInt int | PyFloat real | PyBool bool | PyStr string | PyNone

fun is_int :: "pyval \<Rightarrow> bool" where
  "is_int (PyInt _) = True"
| "is_int (PyBool _) = True"
| "is_int _ = False"

fun is_float :: "pyval \<Rightarrow> bool" where
  "is_float (PyFloat _) = True"
| "is_float _ = False"

fun int_val :: "pyval \<Rightarrow> int" where
  "int_val (PyInt i) = i"
| "int_val (PyBool b) = (if b then 1 else 0)"
| "int_val _ = 0"

fun num_val :: "pyval \<Rightarrow> real" where
  "num_val (PyFloat r) = r"
| "num_val v = real_of_int (int_val v)"

record deck =
  num_decks :: int
  cut_card_loc :: real
  full_deck :: "card list"
  current_deck :: "card list option"

text \<open>
  The random numbers one call of \<^verbatim>\<open>shuffle\<close> consumes:
  \<^verbatim>\<open>np.random.choice(a, size=n)\<close> draws \<open>n\<close> indices below \<open>len(a)\<close>, independently
  (its default is \<^verbatim>\<open>replace=True\<close>), and returns the items at these indices;
  \<^verbatim>\<open>np.random.uniform(.5, 1.5)\<close> returns a number in \<open>[0.5, 1.5)\<close>.
\<close>

record draw =
  choice_indices :: "nat list"
  uniform :: real

definition possible_draw :: "deck \<Rightarrow> draw \<Rightarrow> bool" where
  "possible_draw self rnd \<longleftrightarrow>
     length (choice_indices rnd) = length (full_deck self) \<and>
     list_all (\<lambda>i. i < length (full_deck self)) (choice_indices rnd) \<and>
     1 / 2 \<le> uniform rnd \<and> uniform rnd < 3 / 2"

definition random_choice :: "'a list \<Rightarrow> nat list \<Rightarrow> 'a list" where
  "random_choice a idxs = map (\<lambda>i. a ! i) idxs"

text \<open>\<^verbatim>\<open>int(x)\<close> on a float truncates towards zero.\<close>

definition py_int_float :: "real \<Rightarrow> int" where
  "py_int_float x = (if 0 \<le> x then \<lfloor>x\<rfloor> else \<lceil>x\<rceil>)"

text \<open>
  \<^verbatim>\<open>list.insert(i, x)\<close>: a negative index counts from the end, and an index beyond
  either end is clamped to that end.
\<close>

definition list_insert :: "'a list \<Rightarrow> int \<Rightarrow> 'a \<Rightarrow> 'a list" where
  "list_insert xs i x =
     (let n = int (length xs);
          j = (if i < 0 then max 0 (i + n) else min i n)
      in take (nat j) xs @ x # drop (nat j) xs)"

definition shuffle :: "draw \<Rightarrow> deck \<Rightarrow> deck" where
  "shuffle rnd self =
     (let shuffled = random_choice (full_deck self) (choice_indices rnd);
          location = py_int_float (uniform rnd * (52 * cut_card_loc self))
      in self\<lparr>current_deck := Some (list_insert shuffled location ''0'')\<rparr>)"

definition Deck_init_scope ::
  "card list option \<Rightarrow> draw \<Rightarrow> pyval \<Rightarrow> pyval \<Rightarrow> error + deck" where
  "Deck_init_scope global_one_deck rnd n c =
     (if \<not> (is_int n \<and> (is_int c \<or> is_float c)) then Inl TypeError
      else if (\<not> (0 < int_val n \<and> int_val n < 9)) \<or> (\<not> (1 / 2 \<le> num_val c \<and> num_val c \<le> 2))
        then Inl ValueError
      else
        bind_res (lookup_global global_one_deck) (\<lambda>od.
          Inr (shuffle rnd
                 \<lparr>num_decks = int_val n, cut_card_loc = num_val c,
                  full_deck = concat (replicate (nat (int_val n)) od),
                  current_deck = None\<rparr>)))"

definition Deck_init :: "draw \<Rightarrow> pyval \<Rightarrow> pyval \<Rightarrow> error + deck" where
  "Deck_init = Deck_init_scope None"

section \<open>Dealer\<close>

record dealer =
  hit_on_soft17 :: bool
  min_bet :: int
  max_bet :: int
  deck :: deck
  dealer_hand :: "card list"

text \<open>
  The field \<^verbatim>\<open>current_hand\<close> of the dealer is \<open>dealer_hand\<close> here, the one of the
  player \<open>player_hand\<close> (two records cannot share a field name).
\<close>

definition decide_next_move :: "dealer \<Rightarrow> error + string" where
  "decide_next_move self =
     bind_res (check_hand_total (dealer_hand self)) (\<lambda>total.
       if total < 17 then Inr ''hit'' else Inr ''stand'')"

text \<open>
  \<^verbatim>\<open>deal_card\<close> returns \<^verbatim>\<open>self.deck.current_deck.pop()\<close>: the last item of the list,
  which it removes. The result is the returned value (or the exception) and the dealer
  afterwards.
\<close>

definition deal_card :: "dealer \<Rightarrow> (error + card) \<times> dealer" where
  "deal_card self =
     (case current_deck (deck self) of
        None \<Rightarrow> (Inl AttributeError, self)
      | Some cards \<Rightarrow>
          if cards = [] then (Inl IndexError, self)
          else (Inr (last cards),
                self\<lparr>deck := (deck self)\<lparr>current_deck := Some (butlast cards)\<rparr>\<rparr>))"

section \<open>Player: the betting progression\<close>

text \<open>
  Amounts of money are Python numbers; the model takes them all as integers.
  \<^verbatim>\<open>previous_bet\<close> and \<^verbatim>\<open>previous_outcome\<close> start as \<^verbatim>\<open>None\<close>.
\<close>

record player =
  bank :: int
  bet_strategy :: string
  play_strategy :: string
  player_hand :: "card list"
  current_bet :: int
  previous_bet :: "int option"
  previous_outcome :: "string option"

definition Player_init :: "int \<Rightarrow> player" where
  "Player_init b =
     \<lparr>bank = b, bet_strategy = ''dalembert'', play_strategy = ''basic'', player_hand = [],
      current_bet = 0, previous_bet = None, previous_outcome = None\<rparr>"

definition check_bet_allowed :: "player \<Rightarrow> int \<Rightarrow> dealer \<Rightarrow> bool" where
  "check_bet_allowed self bet_amt dlr =
     (if bank self < bet_amt \<or> bet_amt > max_bet dlr then False else True)"

text \<open>Truth values: \<^verbatim>\<open>None\<close>, the number 0 and the empty string are false.\<close>

definition truthy_num :: "int option \<Rightarrow> bool" where
  "truthy_num v = (case v of None \<Rightarrow> False | Some n \<Rightarrow> n \<noteq> 0)"

definition truthy_str :: "string option \<Rightarrow> bool" where
  "truthy_str v = (case v of None \<Rightarrow> False | Some s \<Rightarrow> s \<noteq> [])"

text \<open>Arithmetic on \<^verbatim>\<open>previous_bet\<close>: with \<^verbatim>\<open>None\<close> it raises \<^verbatim>\<open>TypeError\<close>.\<close>

definition py_add :: "int option \<Rightarrow> int \<Rightarrow> error + int" where
  "py_add a b = (case a of None \<Rightarrow> Inl TypeError | Some x \<Rightarrow> Inr (x + b))"

definition py_sub :: "int option \<Rightarrow> int \<Rightarrow> error + int" where
  "py_sub a b = (case a of None \<Rightarrow> Inl TypeError | Some x \<Rightarrow> Inr (x - b))"

text \<open>
  The call \<^verbatim>\<open>check_bet_allowed(amount, dealer)\<close> through the bare name: the name is
  looked up first, then the arguments are evaluated, then the function runs.
\<close>

definition call_check ::
  "(int \<Rightarrow> dealer \<Rightarrow> bool) option \<Rightarrow> error + int \<Rightarrow> dealer \<Rightarrow> error + bool" where
  "call_check global_check amount dlr =
     bind_res (lookup_global global_check) (\<lambda>f.
       bind_res amount (\<lambda>amt. Inr (f amt dlr)))"

text \<open>
  \<^verbatim>\<open>self.current_bet = amount; self.bank -= self.current_bet\<close>, where evaluating
  \<^verbatim>\<open>amount\<close> may raise before anything is assigned.
\<close>

definition commit_bet :: "error + int \<Rightarrow> player \<Rightarrow> (error + unit) \<times> player" where
  "commit_bet amount self =
     (case amount of
        Inl e \<Rightarrow> (Inl e, self)
      | Inr amt \<Rightarrow>
          (let s1 = self\<lparr>current_bet := amt\<rparr>
           in (Inr (), s1\<lparr>bank := bank s1 - current_bet s1\<rparr>)))"

text \<open>
  \<^verbatim>\<open>place_initial_bet\<close>: the result is \<^verbatim>\<open>None\<close> (\<open>Inr ()\<close>) or the exception, and the
  player afterwards. The source file ends inside the \<^verbatim>\<open>'loss'\<close> branch: that branch
  has a body for \<^verbatim>\<open>self.previous_bet == dealer.min_bet\<close> only.
\<close>

definition place_initial_bet_scope ::
  "(int \<Rightarrow> dealer \<Rightarrow> bool) option \<Rightarrow> player \<Rightarrow> dealer \<Rightarrow> (error + unit) \<times> player" where
  "place_initial_bet_scope g self dlr =
     (if \<not> truthy_num (previous_bet self) \<and> \<not> truthy_str (previous_outcome self) then
        commit_bet (Inr (min_bet dlr)) self
      else if previous_outcome self = Some ''win'' then
        (if previous_bet self = Some (min_bet dlr) then
           (case call_check g (Inr (min_bet dlr)) dlr of
              Inl e \<Rightarrow> (Inl e, self)
            | Inr allowed \<Rightarrow>
                if allowed then commit_bet (Inr (min_bet dlr)) self
                else (Inl ValueError, self))
         else
           (case call_check g (py_sub (previous_bet self) (min_bet dlr)) dlr of
              Inl e \<Rightarrow> (Inl e, self)
            | Inr allowed \<Rightarrow>
                if allowed then commit_bet (py_sub (previous_bet self) (min_bet dlr)) self
                else (Inl ValueError, self)))
      else if previous_outcome self = Some ''loss'' then
        (if previous_bet self = Some (min_bet dlr) then
           (case call_check g (py_add (previous_bet self) (min_bet dlr)) dlr of
              Inl e \<Rightarrow> (Inl e, self)
            | Inr allowed \<Rightarrow>
                if allowed then commit_bet (py_add (previous_bet self) (min_bet dlr)) self
                else
                  (case py_add (previous_bet self) (min_bet dlr) of
                     Inl e \<Rightarrow> (Inl e, self)
                   | Inr raised \<Rightarrow>
                       if raised > bank self then (Inl ValueError, self)
                       else if raised > max_bet dlr then
                         (case call_check g (Inr (max_bet dlr)) dlr of
                            Inl e \<Rightarrow> (Inl e, self)
                          | Inr allowed_max \<Rightarrow>
                              if allowed_max then commit_bet (Inr (max_bet dlr)) self
                              else (Inl ValueError, self))
                       else (Inr (), self)))
         else (Inr (), self))
      else (Inr (), self))"

definition place_initial_bet :: "player \<Rightarrow> dealer \<Rightarrow> (error + unit) \<times> player" where
  "place_initial_bet = place_initial_bet_scope None"

section \<open>The hand values the specification describes\<close>

text \<open>
  For comparison with \<open>check_hand_total\<close> and \<open>check_blackjack\<close>: the total and the
  blackjack test in the specification's words, on the rank of a card. The rank of
  \<^verbatim>\<open>f"{val}{suit}"\<close> is the string without its last character, the suit. Number cards
  count their face value, \<open>J\<close>, \<open>Q\<close> and \<open>K\<close> count 10 and an ace counts 1; with an ace in
  the hand, 10 is added when the sum stays at most 21.
\<close>

definition card_rank :: "card \<Rightarrow> string" where
  "card_rank crd = butlast crd"

definition rank_points :: "(string \<times> int) list" where
  "rank_points =
     [(''2'', 2), (''3'', 3), (''4'', 4), (''5'', 5), (''6'', 6), (''7'', 7), (''8'', 8),
      (''9'', 9), (''10'', 10), (''J'', 10), (''Q'', 10), (''K'', 10), (''A'', 1)]"

definition spec_points :: "card \<Rightarrow> int" where
  "spec_points crd = (case map_of rank_points (card_rank crd) of None \<Rightarrow> 0 | Some v \<Rightarrow> v)"

definition spec_total :: "card list \<Rightarrow> int" where
  "spec_total hand =
     (let base = sum_list (map spec_points hand)
      in if ''A'' \<in> set (map card_rank hand) \<and> base + 10 \<le> 21 then base + 10 else base)"

definition spec_blackjack :: "card list \<Rightarrow> bool" where
  "spec_blackjack hand =
     (case map card_rank hand of
        [a, b] \<Rightarrow> (a = ''A'' \<and> b \<in> set ten_valued) \<or> (b = ''A'' \<and> a \<in> set ten_valued)
      | _ \<Rightarrow> False)"

section \<open>Example states\<close>

text \<open>
  A deck object of one deck as \<^verbatim>\<open>__init__\<close> leaves it before it calls
  \<^verbatim>\<open>shuffle\<close>, with \<^verbatim>\<open>full_deck\<close> the 52 cards of \<^verbatim>\<open>one_deck\<close>; two outcomes of the
  random numbers; and a table with the default limits of \<^verbatim>\<open>Dealer\<close>.
\<close>

definition single_deck :: deck where
  "single_deck = \<lparr>num_decks = 1, cut_card_loc = 1, full_deck = one_deck, current_deck = None\<rparr>"

definition repeating_draw :: draw where
  "repeating_draw = \<lparr>choice_indices = 0 # [0..<51], uniform = 1\<rparr>"

definition in_order_draw :: draw where
  "in_order_draw = \<lparr>choice_indices = [0..<52], uniform = 1\<rparr>"

definition table :: dealer where
  "table =
     \<lparr>hit_on_soft17 = True, min_bet = 15, max_bet = 1000,
      deck = shuffle in_order_draw single_deck, dealer_hand = []\<rparr>"

text \<open>
  Players in the progression of the specification (bank 1000, minimum bet 15): after
  the first round was lost with a bet of 15, after a second round was lost with a bet of
  30, and after a push; and a player whose bank is below the minimum bet.
\<close>

definition after_first_loss :: player where
  "after_first_loss =
     (Player_init 1000)\<lparr>bank := 985, current_bet := 15, previous_bet := Some 15,
                         previous_outcome := Some ''loss''\<rparr>"

definition after_second_loss :: player where
  "after_second_loss =
     (Player_init 1000)\<lparr>bank := 955, current_bet := 30, previous_bet := Some 30,
                         previous_outcome := Some ''loss''\<rparr>"

definition after_push :: player where
  "after_push =
     (Player_init 1000)\<lparr>bank := 1000, current_bet := 15, previous_bet := Some 15,
                         previous_outcome := Some ''push''\<rparr>"

definition poor_player :: player where
  "poor_player = Player_init 10"

section \<open>The cards of a deck\<close>

lemma deck_vals_eq:
  "deck_vals = map (\<lambda>c. [c]) ''23456789'' @ [''10'', ''J'', ''Q'', ''K'', ''A'']"
  by (simp add: deck_vals_def upt_rec py_str_nat.simps digit_chars_def)

lemma one_deck_cards:
  "one_deck =
     [''2D'', ''3D'', ''4D'', ''5D'', ''6D'', ''7D'', ''8D'', ''9D'', ''10D'',
      ''JD'', ''QD'', ''KD'', ''AD'',
      ''2H'', ''3H'', ''4H'', ''5H'', ''6H'', ''7H'', ''8H'', ''9H'', ''10H'',
      ''JH'', ''QH'', ''KH'', ''AH'',
      ''2C'', ''3C'', ''4C'', ''5C'', ''6C'', ''7C'', ''8C'', ''9C'', ''10C'',
      ''JC'', ''QC'', ''KC'', ''AC'',
      ''2S'', ''3S'', ''4S'', ''5S'', ''6S'', ''7S'', ''8S'', ''9S'', ''10S'',
      ''JS'', ''QS'', ''KS'', ''AS'']"
  by (simp add: one_deck_def deck_vals_eq deck_suits_def)

lemma length_one_deck: "length one_deck = 52"
  by (simp add: one_deck_cards)

lemma marker_not_in_one_deck: "''0'' \<notin> set one_deck"
  by (simp add: one_deck_cards)

lemma one_deck_card:
  "c \<in> set one_deck \<longleftrightarrow> (\<exists>v s. c = v @ [s] \<and> v \<in> set deck_vals \<and> s \<in> set ''DHCS'')"
  by (auto simp: one_deck_def deck_suits_def)

lemma card_val_deck:
  assumes "c \<in> set one_deck" "card_rank c \<noteq> ''10''"
  shows "card_val c = Inr (spec_points c)"
proof -
  from assms(1) obtain v s where c: "c = v @ [s]" and v: "v \<in> set deck_vals"
    by (auto simp: one_deck_card)
  from assms(2) c have "v \<noteq> ''10''" by (simp add: card_rank_def)
  with v show ?thesis unfolding c deck_vals_eq
    by (auto simp: card_rank_def card_val_def bind_res_def str_item_def
        py_int_str_def digit_values_def spec_points_def rank_points_def)
qed

lemma spec_points_ace:
  assumes "c \<in> set one_deck" "card_rank c \<noteq> ''10''"
  shows "spec_points c = 1 \<longleftrightarrow> card_rank c = ''A''"
proof -
  from assms(1) obtain v s where c: "c = v @ [s]" and v: "v \<in> set deck_vals"
    by (auto simp: one_deck_card)
  from v show ?thesis unfolding c deck_vals_eq
    by (auto simp: card_rank_def spec_points_def rank_points_def)
qed

lemma map_res_total:
  "(\<And>x. x \<in> set xs \<Longrightarrow> f x = Inr (g x)) \<Longrightarrow> map_res f xs = Inr (map g xs)"
  by (induction xs) auto

lemma aces_found:
  "(\<And>c. c \<in> set hand \<Longrightarrow> (g c = (1::int)) = (r c = a)) \<Longrightarrow>
   (filter (\<lambda>v. v = 1) (map g hand) \<noteq> []) = (a \<in> set (map r hand))"
  by (induction hand) auto

text \<open>
  On hands of cards of the deck without a 10, \<open>check_hand_total\<close> is the total of the
  specification.
\<close>

lemma check_hand_total_without_tens:
  assumes deck: "set hand \<subseteq> set one_deck" and no10: "''10'' \<notin> set (map card_rank hand)"
  shows "check_hand_total hand = Inr (spec_total hand)"
proof -
  have each: "c \<in> set one_deck \<and> card_rank c \<noteq> ''10''" if "c \<in> set hand" for c
  proof
    show "c \<in> set one_deck" using that deck by (rule subsetD [rotated])
    show "card_rank c \<noteq> ''10''"
    proof
      assume "card_rank c = ''10''"
      then have "''10'' \<in> card_rank ` set hand" using that by (rule image_eqI [OF sym])
      then show False using no10 by simp
    qed
  qed
  have vals: "map_res card_val hand = Inr (map spec_points hand)"
    by (rule map_res_total) (simp add: each card_val_deck)
  have "(filter (\<lambda>v. v = 1) (map spec_points hand) \<noteq> []) \<longleftrightarrow> ''A'' \<in> set (map card_rank hand)"
    by (rule aces_found) (simp add: each spec_points_ace)
  with vals show ?thesis
    by (simp add: check_hand_total_def spec_total_def bind_res_def Let_def)
qed

text \<open>
  Claim C1. \<open>check_hand_total\<close> is claimed to count every number card at its face
  value, a 10 as 10. It reads the value from the first character of the card, which for
  a 10 is \<open>1\<close>: each 10 counts 1 and is taken for an ace. For two 10s the code returns
  12, where the total the claim describes is 20.
\<close>

theorem tens_count_one:
  "check_hand_total [''10D'', ''10H''] = Inr 12 \<and> spec_total [''10D'', ''10H''] = 20"
  by (simp add: check_hand_total_def card_val_def bind_res_def str_item_def py_int_str_def
      digit_values_def spec_total_def spec_points_def rank_points_def card_rank_def)

lemma check_hand_total_examples:
  "check_hand_total [''AD'', ''6H''] = Inr 17"
  "check_hand_total [''AD'', ''6H'', ''9C''] = Inr 16"
  "check_hand_total [''10D'', ''5H''] = Inr 16"
  by (simp_all add: check_hand_total_def card_val_def bind_res_def str_item_def py_int_str_def
      digit_values_def)

section \<open>Blackjack detection\<close>

lemma deck_vals_first_all:
  "list_all (\<lambda>v. v \<noteq> [] \<and> (hd v = CHR ''A'') = (v = ''A'') \<and>
                 ([hd v] \<in> set ten_valued) = (v \<in> set [''J'', ''Q'', ''K'']))
            deck_vals"
  by (simp add: deck_vals_eq ten_valued_def)

lemma deck_val_first:
  assumes "v \<in> set deck_vals"
  shows "v \<noteq> []"
    and "(hd v = CHR ''A'') = (v = ''A'')"
    and "([hd v] \<in> set ten_valued) = (v \<in> set [''J'', ''Q'', ''K''])"
  using assms deck_vals_first_all unfolding list_all_iff by blast+

lemma ace_not_ten_valued: "''A'' \<notin> set ten_valued"
  by (simp add: ten_valued_def)

lemma deck_card_first:
  assumes "c \<in> set one_deck"
  shows "str_item c 0 = Inr [hd (card_rank c)]"
    and "card_rank c \<in> set deck_vals"
proof -
  from assms obtain v s where c: "c = v @ [s]" and v: "v \<in> set deck_vals"
    by (auto simp: one_deck_card)
  show "str_item c 0 = Inr [hd (card_rank c)]"
    using deck_val_first(1) [OF v] by (simp add: c card_rank_def str_item_def hd_conv_nth nth_append)
  show "card_rank c \<in> set deck_vals"
    using v by (simp add: c card_rank_def)
qed

lemma check_blackjack_deck_cards:
  assumes a: "a \<in> set one_deck" and b: "b \<in> set one_deck"
  shows "check_blackjack [a, b] =
           Inr ((card_rank a = ''A'' \<and> card_rank b \<in> set [''J'', ''Q'', ''K'']) \<or>
                (card_rank b = ''A'' \<and> card_rank a \<in> set [''J'', ''Q'', ''K'']))"
proof -
  have i0: "hand_item0 [a, b] 0 = Inr [hd (card_rank a)]"
    by (simp add: hand_item0_def py_item_def bind_res_def deck_card_first(1) [OF a])
  have i1: "hand_item0 [a, b] 1 = Inr [hd (card_rank b)]"
    by (simp add: hand_item0_def py_item_def bind_res_def deck_card_first(1) [OF b])
  note ra = deck_val_first [OF deck_card_first(2) [OF a]]
  note rb = deck_val_first [OF deck_card_first(2) [OF b]]
  show ?thesis
    unfolding check_blackjack_def i0 i1 bind_res_def
    by (auto simp: ra(2,3) rb(2,3) ace_not_ten_valued)
qed

text \<open>
  Claim C5. A two-card hand of an ace and a ten-valued card is claimed to be a blackjack,
  the 10 included. \<open>check_blackjack\<close> compares the first character of the card with
  the string \<open>10\<close>, which no single character equals: a 10 with an ace is not detected,
  where the hand is a blackjack in the specification's words.
\<close>

theorem ten_and_ace_not_blackjack:
  "check_blackjack [''10D'', ''AS''] = Inr False \<and> spec_blackjack [''10D'', ''AS'']"
  by (simp add: check_blackjack_def hand_item0_def py_item_def str_item_def bind_res_def
      ten_valued_def spec_blackjack_def card_rank_def)

lemma check_blackjack_examples:
  "check_blackjack [''AD'', ''KH''] = Inr True"
  "check_blackjack [''AD'', ''9H''] = Inr False"
  "check_blackjack [''AD'', ''10H''] = Inr False"
  by (simp_all add: check_blackjack_def hand_item0_def py_item_def str_item_def bind_res_def
      ten_valued_def)

section \<open>The dealer's move\<close>

lemma decide_next_move_ignores_flag:
  "decide_next_move (d\<lparr>hit_on_soft17 := b\<rparr>) = decide_next_move d"
  by (simp add: decide_next_move_def)

lemma decide_next_move_by_total:
  "check_hand_total (dealer_hand d) = Inr t \<Longrightarrow>
   decide_next_move d = Inr (if t < 17 then ''hit'' else ''stand'')"
  by (simp add: decide_next_move_def bind_res_def)

text \<open>
  Claim C4. On a soft 17 the dealer is claimed to hit exactly when \<open>hit_on_soft17\<close> is
  set. \<open>decide_next_move\<close> never reads the flag: it hits below 17 and stands from 17
  on. With the flag set and the hand ace, 6 (17 with the ace as 11) it stands.
\<close>

theorem soft17_stands_with_flag:
  "decide_next_move (d\<lparr>hit_on_soft17 := True, dealer_hand := [''AD'', ''6H'']\<rparr>) = Inr ''stand''"
  by (simp add: decide_next_move_def check_hand_total_def card_val_def bind_res_def str_item_def
      py_int_str_def digit_values_def)

section \<open>The bet guard\<close>

text \<open>
  Claim C9. \<open>check_bet_allowed\<close> is false exactly when the amount exceeds the bank or
  the table maximum, that is, true exactly when it is within both; the dealer's minimum
  bet has no influence on it.
\<close>

theorem check_bet_allowed_bank_and_max:
  "check_bet_allowed p amt d = (amt \<le> bank p \<and> amt \<le> max_bet d) \<and>
   check_bet_allowed p amt (d\<lparr>min_bet := m\<rparr>) = check_bet_allowed p amt d"
  by (auto simp: check_bet_allowed_def)

section \<open>The betting progression\<close>

text \<open>
  The first round commits the minimum bet without any check. Every later path that
  computes a bet calls \<^verbatim>\<open>check_bet_allowed\<close> through the bare name and so raises
  \<^verbatim>\<open>NameError\<close>; after a loss with a previous bet other than the minimum no code
  runs at all.
\<close>

lemma first_round_bet:
  assumes "\<not> truthy_num (previous_bet p)" "\<not> truthy_str (previous_outcome p)"
  shows "place_initial_bet_scope g p d =
           (Inr (), p\<lparr>current_bet := min_bet d, bank := bank p - min_bet d\<rparr>)"
  using assms by (simp add: place_initial_bet_scope_def commit_bet_def)

lemma win_raises_NameError:
  assumes "previous_outcome p = Some ''win''"
  shows "place_initial_bet p d = (Inl NameError, p)"
  using assms
  by (simp add: place_initial_bet_def place_initial_bet_scope_def call_check_def lookup_global_def
      bind_res_def truthy_str_def)

lemma loss_at_minimum_raises_NameError:
  assumes "previous_outcome p = Some ''loss''" "previous_bet p = Some (min_bet d)"
  shows "place_initial_bet p d = (Inl NameError, p)"
  using assms
  by (simp add: place_initial_bet_def place_initial_bet_scope_def call_check_def lookup_global_def
      bind_res_def truthy_str_def)

lemma loss_above_minimum_noop:
  assumes "previous_outcome p = Some ''loss''" "previous_bet p \<noteq> Some (min_bet d)"
  shows "place_initial_bet_scope g p d = (Inr (), p)"
  using assms by (simp add: place_initial_bet_scope_def truthy_str_def)

lemma other_outcome_noop:
  assumes "truthy_num (previous_bet p) \<or> truthy_str (previous_outcome p)"
    and "previous_outcome p \<noteq> Some ''win''" and "previous_outcome p \<noteq> Some ''loss''"
  shows "place_initial_bet_scope g p d = (Inr (), p)"
  using assms by (auto simp: place_initial_bet_scope_def)

text \<open>
  What the branches do once the name is bound to the player's own method, as
  \<^verbatim>\<open>self.check_bet_allowed\<close> would be: one unit down after a win (the minimum again
  after a win at the minimum), and after a loss at the minimum one unit up, clamped to
  the table maximum, with \<^verbatim>\<open>ValueError\<close> when the bank does not cover the bet.
\<close>

lemma win_with_check_bound:
  assumes "previous_outcome p = Some ''win''" "previous_bet p = Some b"
  shows "place_initial_bet_scope (Some (check_bet_allowed p)) p d =
           (let amt = (if b = min_bet d then min_bet d else b - min_bet d)
            in if check_bet_allowed p amt d
               then (Inr (), p\<lparr>current_bet := amt, bank := bank p - amt\<rparr>)
               else (Inl ValueError, p))"
  using assms
  by (simp add: place_initial_bet_scope_def call_check_def lookup_global_def bind_res_def
      truthy_str_def commit_bet_def py_sub_def Let_def)

lemma loss_at_minimum_with_check_bound:
  assumes "previous_outcome p = Some ''loss''" "previous_bet p = Some (min_bet d)"
  shows "place_initial_bet_scope (Some (check_bet_allowed p)) p d =
           (let amt = min_bet d + min_bet d
            in if amt \<le> bank p \<and> amt \<le> max_bet d
                 then (Inr (), p\<lparr>current_bet := amt, bank := bank p - amt\<rparr>)
               else if amt > bank p then (Inl ValueError, p)
               else if max_bet d \<le> bank p
                 then (Inr (), p\<lparr>current_bet := max_bet d, bank := bank p - max_bet d\<rparr>)
               else (Inl ValueError, p))"
  using assms
  by (simp add: place_initial_bet_scope_def call_check_def lookup_global_def bind_res_def
      truthy_str_def commit_bet_def py_add_def check_bet_allowed_def Let_def)

text \<open>
  Whatever the name is bound to, a call that raises leaves the player as it was.
\<close>

lemma commit_bet_failure:
  "fst (commit_bet amount p) = Inl e \<Longrightarrow> snd (commit_bet amount p) = p"
  by (cases amount) (simp_all add: commit_bet_def Let_def)

lemma guarded_failure:
  "fst (case chk of Inl e' \<Rightarrow> (Inl e', p) | Inr ok \<Rightarrow> if ok then commit_bet amount p else (Inl ValueError, p)) = Inl e \<Longrightarrow>
   snd (case chk of Inl e' \<Rightarrow> (Inl e', p) | Inr ok \<Rightarrow> if ok then commit_bet amount p else (Inl ValueError, p)) = p"
  by (cases chk) (auto simp: commit_bet_failure)

lemma failure_leaves_player:
  assumes "fst (place_initial_bet_scope g p d) = Inl e"
  shows "snd (place_initial_bet_scope g p d) = p"
  using assms unfolding place_initial_bet_scope_def
  by (auto simp: commit_bet_failure guarded_failure split: if_splits sum.splits)

text \<open>
  Claim C2. After a loss the next bet is claimed to be the previous bet plus the minimum
  (and after a win one unit down). In the progression of the specification, after the
  first round was lost with 15 the call raises \<^verbatim>\<open>NameError\<close> and places no bet; and
  even with the name bound, after a second loss (previous bet 30, not the minimum) the
  call places no bet, where the claim says 45.
\<close>

theorem progression_after_loss_fails:
  "place_initial_bet after_first_loss table = (Inl NameError, after_first_loss) \<and>
   place_initial_bet_scope (Some (check_bet_allowed after_second_loss)) after_second_loss table
     = (Inr (), after_second_loss)"
  by (simp add: place_initial_bet_def place_initial_bet_scope_def call_check_def
      lookup_global_def bind_res_def truthy_str_def truthy_num_def after_first_loss_def
      after_second_loss_def Player_init_def table_def)

text \<open>
  Claim C6. Every computed bet, the first-round minimum bet included, is claimed to be
  checked against the bank and the table maximum before it is committed. The first
  round commits \<open>min_bet\<close> unchecked: a player with a bank of 10 at a table with a
  minimum of 15 is debited to \<open>- 5\<close> and no exception is raised, though
  \<open>check_bet_allowed\<close> refuses that amount.
\<close>

theorem first_bet_is_not_checked:
  "\<not> check_bet_allowed poor_player (min_bet table) table \<and>
   place_initial_bet poor_player table = (Inr (), poor_player\<lparr>current_bet := 15, bank := - 5\<rparr>)"
  by (simp add: place_initial_bet_def place_initial_bet_scope_def truthy_str_def truthy_num_def
      commit_bet_def check_bet_allowed_def poor_player_def Player_init_def table_def)

text \<open>
  Claim C10. With a previous bet (a number other than 0, which Python takes as true) and
  a previous outcome that is neither \<open>win\<close> nor \<open>loss\<close> (a push, any other string, or
  \<^verbatim>\<open>None\<close>), \<open>place_initial_bet\<close> raises nothing, returns \<^verbatim>\<open>None\<close> and leaves the
  player, bank and current bet included, exactly as it was.
\<close>

theorem push_is_silent_noop:
  assumes "previous_bet p = Some b" and "b \<noteq> 0"
    and "previous_outcome p \<noteq> Some ''win''" and "previous_outcome p \<noteq> Some ''loss''"
  shows "place_initial_bet p d = (Inr (), p)"
  using assms by (simp add: place_initial_bet_def place_initial_bet_scope_def truthy_num_def)

theorem push_is_silent_noop_witness:
  "place_initial_bet after_push table = (Inr (), after_push)"
proof -
  have "previous_bet after_push = Some 15" "(15::int) \<noteq> 0"
    "previous_outcome after_push \<noteq> Some ''win''" "previous_outcome after_push \<noteq> Some ''loss''"
    by (simp_all add: after_push_def)
  then show ?thesis by (rule push_is_silent_noop)
qed

section \<open>Shuffling and dealing\<close>

text \<open>
  After a shuffle the drawable sequence holds one item more than \<open>full_deck\<close>, exactly
  one cut-card marker, and otherwise only cards of \<open>full_deck\<close>.
\<close>

lemma length_list_insert: "length (list_insert xs i x) = Suc (length xs)"
  by (simp add: list_insert_def Let_def)

lemma set_list_insert: "set (list_insert xs i x) = insert x (set xs)"
proof -
  have "set (take n xs) \<union> set (drop n xs) = set xs" for n
    by (metis append_take_drop_id set_append)
  then show ?thesis by (auto simp: list_insert_def Let_def)
qed

lemma count_list_insert:
  "count_list (list_insert xs i x) y = count_list xs y + (if x = y then 1 else 0)"
proof -
  have "count_list (take n xs) y + count_list (drop n xs) y = count_list xs y" for n
    by (metis append_take_drop_id count_list_append)
  then show ?thesis by (simp add: list_insert_def Let_def)
qed

lemma shuffle_current_deck:
  "current_deck (shuffle rnd self) =
     Some (list_insert (random_choice (full_deck self) (choice_indices rnd))
             (py_int_float (uniform rnd * (52 * cut_card_loc self))) ''0'')"
  by (simp add: shuffle_def Let_def)

lemma random_choice_subset:
  "list_all (\<lambda>i. i < length a) idxs \<Longrightarrow> set (random_choice a idxs) \<subseteq> set a"
  by (auto simp: random_choice_def list_all_iff)

lemma shuffle_size_and_marker:
  assumes "possible_draw self rnd" "''0'' \<notin> set (full_deck self)"
  obtains cards where "current_deck (shuffle rnd self) = Some cards"
    and "length cards = length (full_deck self) + 1"
    and "count_list cards ''0'' = 1"
    and "set cards \<subseteq> insert ''0'' (set (full_deck self))"
proof
  let ?sh = "random_choice (full_deck self) (choice_indices rnd)"
  let ?cards = "list_insert ?sh (py_int_float (uniform rnd * (52 * cut_card_loc self))) ''0''"
  have sub: "set ?sh \<subseteq> set (full_deck self)"
    using assms(1) by (intro random_choice_subset) (simp add: possible_draw_def)
  show "current_deck (shuffle rnd self) = Some ?cards" by (rule shuffle_current_deck)
  show "length ?cards = length (full_deck self) + 1"
    using assms(1) by (simp add: length_list_insert random_choice_def possible_draw_def)
  have "''0'' \<notin> set ?sh" using sub assms(2) by blast
  then show "count_list ?cards ''0'' = 1"
    by (simp add: count_list_insert count_list_0_iff)
  show "set ?cards \<subseteq> insert ''0'' (set (full_deck self))"
    using sub by (auto simp: set_list_insert)
qed

lemma shuffled_in_order:
  "current_deck (shuffle in_order_draw single_deck) = Some (one_deck @ [''0''])"
proof -
  have "map ((!) one_deck) [0..<length one_deck] = one_deck" by (rule map_nth)
  then have "random_choice one_deck [0..<52] = one_deck"
    by (simp add: random_choice_def length_one_deck)
  then show ?thesis
    by (simp add: shuffle_current_deck in_order_draw_def single_deck_def list_insert_def
        py_int_float_def length_one_deck)
qed

lemma Deck_init_bound_single:
  "Deck_init_scope (Some one_deck) rnd (PyInt 1) (PyInt 1) = Inr (shuffle rnd single_deck)"
  by (simp add: Deck_init_scope_def lookup_global_def bind_res_def single_deck_def)

text \<open>
  Claim C3. After a shuffle of a one-deck shoe each of the 52 cards is claimed to be
  present exactly once. \<open>shuffle\<close> draws with \<^verbatim>\<open>np.random.choice\<close>, whose default
  samples with replacement: when an index is drawn twice, a card is there twice and
  another is missing. The sequence still has 53 items.
\<close>

theorem shuffle_repeats_cards:
  "possible_draw single_deck repeating_draw \<and>
   (case current_deck (shuffle repeating_draw single_deck) of
      None \<Rightarrow> False
    | Some cards \<Rightarrow> length cards = 53 \<and> count_list cards ''2D'' = 2 \<and> ''AS'' \<notin> set cards)"
  by (simp add: possible_draw_def shuffle_current_deck single_deck_def repeating_draw_def
      random_choice_def list_insert_def py_int_float_def one_deck_cards upt_rec)

text \<open>
  The marker can be the very first item dealt: \<^verbatim>\<open>insert\<close> clamps the location to the
  end of the list, which is the top of the stack, and \<open>deal_card\<close> hands the marker to
  its caller.
\<close>

theorem marker_is_dealt:
  "possible_draw single_deck in_order_draw \<and> fst (deal_card table) = Inr ''0''"
proof
  show "possible_draw single_deck in_order_draw"
    by (simp add: possible_draw_def single_deck_def in_order_draw_def length_one_deck list_all_iff)
  show "fst (deal_card table) = Inr ''0''"
    by (simp add: deal_card_def table_def shuffled_in_order)
qed

lemma deal_card_empty:
  "current_deck (deck d) = Some [] \<Longrightarrow> deal_card d = (Inl IndexError, d)"
  by (simp add: deal_card_def)

text \<open>
  Claim C7, amended. \<open>deal_card\<close> removes the top item of the drawable sequence and
  returns it to its caller whatever it is: when the cut-card marker is on top, the
  marker itself is returned like a card and is gone from the sequence afterwards.
  \<open>deal_card\<close> does not tell the marker from a card and computes no penetration signal.
\<close>

theorem deal_card_pops_top:
  assumes "current_deck (deck d) = Some (cards @ [c])"
  shows "deal_card d = (Inr c, d\<lparr>deck := (deck d)\<lparr>current_deck := Some cards\<rparr>\<rparr>)"
  using assms by (simp add: deal_card_def)

theorem deal_card_pops_top_witness:
  "deal_card table = (Inr ''0'', table\<lparr>deck := (deck table)\<lparr>current_deck := Some one_deck\<rparr>\<rparr>)"
proof -
  have "current_deck (deck table) = Some (one_deck @ [''0''])"
    by (simp add: table_def shuffled_in_order)
  then show ?thesis by (rule deal_card_pops_top)
qed

section \<open>Constructing a deck\<close>

text \<open>
  Arguments of the wrong type raise \<^verbatim>\<open>TypeError\<close> and arguments out of range
  \<^verbatim>\<open>ValueError\<close>. Valid arguments reach \<^verbatim>\<open>one_deck*self.num_decks\<close>, where the
  bare name \<^verbatim>\<open>one_deck\<close> is unbound: no call of the constructor returns a deck. With
  the name bound to the class attribute, the full deck has \<open>52 * num_decks\<close> cards.
\<close>

lemma length_repeated_deck: "length (concat (replicate n od)) = n * length od"
  by (induction n) simp_all

lemma Deck_init_wrong_type:
  assumes "\<not> (is_int n \<and> (is_int c \<or> is_float c))"
  shows "Deck_init_scope g rnd n c = Inl TypeError"
  using assms by (simp add: Deck_init_scope_def)

lemma Deck_init_out_of_range:
  assumes "is_int n" "is_int c \<or> is_float c"
    and "\<not> (0 < int_val n \<and> int_val n < 9) \<or> \<not> (1 / 2 \<le> num_val c \<and> num_val c \<le> 2)"
  shows "Deck_init_scope g rnd n c = Inl ValueError"
  using assms by (auto simp: Deck_init_scope_def)

lemma Deck_init_valid_raises_NameError:
  assumes "is_int n" "is_int c \<or> is_float c"
    and "0 < int_val n" "int_val n < 9" "1 / 2 \<le> num_val c" "num_val c \<le> 2"
  shows "Deck_init rnd n c = Inl NameError"
  using assms by (auto simp: Deck_init_def Deck_init_scope_def lookup_global_def bind_res_def)

lemma Deck_init_never_returns: "Deck_init rnd n c \<noteq> Inr dk"
  by (simp add: Deck_init_def Deck_init_scope_def lookup_global_def bind_res_def)

lemma Deck_init_bound_builds:
  assumes "is_int n" "is_int c \<or> is_float c"
    and "0 < int_val n" "int_val n < 9" "1 / 2 \<le> num_val c" "num_val c \<le> 2"
  shows "Deck_init_scope (Some one_deck) rnd n c =
           Inr (shuffle rnd \<lparr>num_decks = int_val n, cut_card_loc = num_val c,
                             full_deck = concat (replicate (nat (int_val n)) one_deck),
                             current_deck = None\<rparr>)"
    and "length (concat (replicate (nat (int_val n)) one_deck)) = 52 * nat (int_val n)"
  using assms
  by (auto simp: Deck_init_scope_def lookup_global_def bind_res_def length_repeated_deck
      length_one_deck)

text \<open>
  Claim C8. Construction with \<open>num_decks\<close> in \<open>[1, 8]\<close> and \<open>cut_card_loc\<close> in
  \<open>[0.5, 2]\<close> is claimed to succeed and to build \<open>52 * num_decks\<close> cards. With one
  deck, and with the defaults of six decks and location 1, the constructor raises
  \<^verbatim>\<open>NameError\<close>.
\<close>

theorem Deck_init_raises_NameError:
  "Deck_init rnd (PyInt 1) (PyFloat 1) = Inl NameError \<and>
   Deck_init rnd (PyInt 6) (PyInt 1) = Inl NameError"
  by (simp add: Deck_init_def Deck_init_scope_def lookup_global_def bind_res_def)

end
